theory Spec2Isabelle
  imports Main "HOL-Library.Word" "HOL-Library.Sublist"
begin

section \<open>JavaScript values used by App.js\<close>

text \<open>
  A JavaScript string is a sequence of 16-bit code units. Task ids are the integer
  millisecond readings of \<^verbatim>\<open>Date.now()\<close>.
\<close>

type_synonym code_unit = "16 word"
type_synonym jsstring = "code_unit list"

text \<open>Writes a string of Basic Latin characters as its code units.\<close>

definition lit :: "string \<Rightarrow> jsstring" where
  "lit s = map of_char s"

text \<open>
  \<^verbatim>\<open>String.prototype.trim\<close> removes WhiteSpace and LineTerminator code points from both
  ends. All of them lie in the Basic Multilingual Plane, so each is one code unit.
\<close>

definition isWhiteSpace :: "code_unit \<Rightarrow> bool" where
  "isWhiteSpace c \<longleftrightarrow>
     c = 0x0009 \<or> c = 0x000A \<or> c = 0x000B \<or> c = 0x000C \<or> c = 0x000D \<or>
     c = 0x0020 \<or> c = 0x00A0 \<or> c = 0x1680 \<or> (0x2000 \<le> c \<and> c \<le> 0x200A) \<or>
     c = 0x2028 \<or> c = 0x2029 \<or> c = 0x202F \<or> c = 0x205F \<or> c = 0x3000 \<or>
     c = 0xFEFF"

definition trim :: "jsstring \<Rightarrow> jsstring" where
  "trim s = rev (dropWhile isWhiteSpace (rev (dropWhile isWhiteSpace s)))"

text \<open>
  \<^verbatim>\<open>String.prototype.includes\<close>: the search string occurs at some position of the
  receiver. \<open>startsWith s t\<close> compares \<open>t\<close> with the code units at the front of \<open>s\<close>.
\<close>

fun startsWith :: "'a list \<Rightarrow> 'a list \<Rightarrow> bool" where
  "startsWith s [] = True"
| "startsWith [] (d # t) = False"
| "startsWith (c # s) (d # t) = (c = d \<and> startsWith s t)"

fun includes_js :: "'a list \<Rightarrow> 'a list \<Rightarrow> bool" where
  "includes_js [] t = startsWith [] t"
| "includes_js (c # s) t = (startsWith (c # s) t \<or> includes_js s t)"

text \<open>
  \<^verbatim>\<open>String.prototype.toLowerCase\<close> is the Unicode lower-case mapping of the host
  runtime; the functions below take it as a parameter. \<open>toLowerCase_latin\<close> is its
  restriction to strings of Basic Latin code units, where it maps \<open>A\<close>..\<open>Z\<close> to
  \<open>a\<close>..\<open>z\<close> and leaves every other code unit as it is.
\<close>

definition toLowerCase_latin :: "jsstring \<Rightarrow> jsstring" where
  "toLowerCase_latin s = map (\<lambda>c. if 0x41 \<le> c \<and> c \<le> 0x5A then c + 0x20 else c) s"





text \<open>\<^verbatim>\<open>Array.prototype.map\<close> and \<^verbatim>\<open>Array.prototype.filter\<close>, front to back.\<close>

primrec map_js :: "('a \<Rightarrow> 'b) \<Rightarrow> 'a list \<Rightarrow> 'b list" where
  "map_js f [] = []"
| "map_js f (x # xs) = f x # map_js f xs"

primrec filter_js :: "('a \<Rightarrow> bool) \<Rightarrow> 'a list \<Rightarrow> 'a list" where
  "filter_js p [] = []"
| "filter_js p (x # xs) = (if p x then x # filter_js p xs else filter_js p xs)"

section \<open>Tasks and the reducer\<close>

record task =
  id' :: int
  "text" :: jsstring
  completed :: bool

text \<open>
  An action is an object tagged by its \<^verbatim>\<open>type\<close> field: \<^verbatim>\<open>"add"\<close> carries \<^verbatim>\<open>text\<close>,
  \<^verbatim>\<open>"toggle"\<close> carries \<^verbatim>\<open>id\<close>, \<^verbatim>\<open>"filter"\<close> carries \<^verbatim>\<open>payload\<close>; \<open>Other\<close> stands for
  every other tag.
\<close>

datatype action = Add jsstring | Toggle int | Filter "task list" | Other

text \<open>
  \<^verbatim>\<open>taskReducer(state, action)\<close>. The first argument is the value \<^verbatim>\<open>Date.now()\<close>
  returns when the reducer runs.
\<close>

fun taskReducer :: "int \<Rightarrow> task list \<Rightarrow> action \<Rightarrow> task list" where
  "taskReducer now state (Add txt) =
     state @ [\<lparr>id' = now, text = txt, completed = False\<rparr>]"
| "taskReducer now state (Toggle i) =
     map_js (\<lambda>task. if id' task = i then task\<lparr>completed := \<not> completed task\<rparr> else task)
       state"
| "taskReducer now state (Filter payload) = payload"
| "taskReducer now state Other = state"

text \<open>
  A session: the store starts as \<^verbatim>\<open>[]\<close> (\<^verbatim>\<open>useReducer(taskReducer, [])\<close>) and every
  dispatched action is reduced in turn, each with its own clock reading.
\<close>

fun dispatchAll :: "task list \<Rightarrow> (int \<times> action) list \<Rightarrow> task list" where
  "dispatchAll state [] = state"
| "dispatchAll state ((now, a) # rest) = dispatchAll (taskReducer now state a) rest"

definition session :: "(int \<times> action) list \<Rightarrow> task list" where
  "session evs = dispatchAll [] evs"

section \<open>The component: state, handler and derived views\<close>

record app =
  newTask :: jsstring
  searchTerm :: jsstring
  tasks :: "task list"

text \<open>
  \<^verbatim>\<open>addTask\<close>: a string is truthy exactly when it is not empty. The text dispatched is
  \<^verbatim>\<open>newTask\<close> itself, not its trimmed copy.
\<close>

definition addTask :: "int \<Rightarrow> app \<Rightarrow> app" where
  "addTask now st =
     (if trim (newTask st) \<noteq> []
      then st\<lparr>tasks := taskReducer now (tasks st) (Add (newTask st)), newTask := []\<rparr>
      else st)"

definition completedTasks :: "task list \<Rightarrow> task list" where
  "completedTasks ts = filter_js (\<lambda>task. completed task) ts"

definition filteredTasks ::
  "(jsstring \<Rightarrow> jsstring) \<Rightarrow> task list \<Rightarrow> jsstring \<Rightarrow> task list" where
  "filteredTasks toLowerCase ts deferredSearchTerm =
     filter_js (\<lambda>task. includes_js (toLowerCase (text task)) (toLowerCase deferredSearchTerm)) ts"

section \<open>The specification's vocabulary\<close>



text \<open>How often an id occurs in a store.\<close>

definition occurrences :: "int \<Rightarrow> task list \<Rightarrow> nat" where
  "occurrences i state = length (filter (\<lambda>task. id' task = i) state)"

text \<open>The clock readings of the \<^verbatim>\<open>"add"\<close> actions of a session, in order.\<close>

fun addReadings :: "(int \<times> action) list \<Rightarrow> int list" where
  "addReadings [] = []"
| "addReadings ((now, Add txt) # rest) = now # addReadings rest"
| "addReadings ((now, a) # rest) = addReadings rest"

section \<open>Library facts about the array and string operations\<close>

lemma map_js_eq: "map_js f xs = map f xs"
  by (induction xs) simp_all

lemma filter_js_eq: "filter_js p xs = filter p xs"
  by (induction xs) simp_all

lemma startsWith_prefix: "startsWith s t \<longleftrightarrow> prefix t s"
  by (induction s t rule: startsWith.induct) auto

lemma includes_js_sublist: "includes_js s t \<longleftrightarrow> sublist t s"
proof (induction s)
  case Nil
  show ?case by (cases t) simp_all
next
  case (Cons c s)
  show ?case
  proof (cases t)
    case Nil
    then show ?thesis by simp
  next
    case (Cons d u)
    with Cons.IH show ?thesis
      by (simp add: startsWith_prefix sublist_Cons_right del: startsWith.simps)
  qed
qed

lemma filter_length_one:
  "length (filter P xs) = 1 \<Longrightarrow>
   \<exists>k < length xs. P (xs ! k) \<and> (\<forall>j < length xs. j \<noteq> k \<longrightarrow> \<not> P (xs ! j))"
proof (induction xs)
  case Nil
  then show ?case by simp
next
  case (Cons x xs)
  show ?case
  proof (cases "P x")
    case True
    with Cons.prems have "filter P xs = []" by simp
    then have none: "\<forall>y \<in> set xs. \<not> P y" by (simp add: filter_empty_conv)
    have "\<forall>j < length (x # xs). j \<noteq> 0 \<longrightarrow> \<not> P ((x # xs) ! j)"
    proof (intro allI impI)
      fix j assume "j < length (x # xs)" "j \<noteq> 0"
      then obtain j' where "j = Suc j'" "j' < length xs" by (cases j) auto
      with none show "\<not> P ((x # xs) ! j)" by simp
    qed
    with True show ?thesis by (intro exI[of _ 0]) simp
  next
    case False
    with Cons.prems have "length (filter P xs) = 1" by simp
    from Cons.IH[OF this] obtain k where k: "k < length xs" "P (xs ! k)"
      "\<forall>j < length xs. j \<noteq> k \<longrightarrow> \<not> P (xs ! j)" by blast
    have "\<forall>j < length (x # xs). j \<noteq> Suc k \<longrightarrow> \<not> P ((x # xs) ! j)"
    proof (intro allI impI)
      fix j assume j: "j < length (x # xs)" "j \<noteq> Suc k"
      show "\<not> P ((x # xs) ! j)"
      proof (cases j)
        case 0
        with False show ?thesis by simp
      next
        case (Suc j')
        with j k(3) show ?thesis by simp
      qed
    qed
    with k(1,2) show ?thesis by (intro exI[of _ "Suc k"]) simp
  qed
qed

lemma toggle_nth:
  "k < length state \<Longrightarrow>
   taskReducer now state (Toggle i) ! k =
     (if id' (state ! k) = i then (state ! k)\<lparr>completed := \<not> completed (state ! k)\<rparr>
      else state ! k)"
  by (simp add: map_js_eq)

lemma toggle_length: "length (taskReducer now state (Toggle i)) = length state"
  by (simp add: map_js_eq)

lemma toggle_ids: "map id' (taskReducer now state (Toggle i)) = map id' state"
  by (simp add: map_js_eq)

lemma toggle_texts: "map text (taskReducer now state (Toggle i)) = map text state"
  by (simp add: map_js_eq)

lemma toggle_twice:
  "taskReducer now2 (taskReducer now1 state (Toggle i)) (Toggle i) = state"
  by (simp add: map_js_eq map_idI)

lemma trim_blank_iff: "trim s = [] \<longleftrightarrow> (\<forall>c \<in> set s. isWhiteSpace c)"
proof -
  have "(\<forall>c \<in> set (dropWhile isWhiteSpace s). isWhiteSpace c) \<longleftrightarrow>
        dropWhile isWhiteSpace s = []"
  proof (cases "dropWhile isWhiteSpace s")
    case Nil
    then show ?thesis by (auto dest: set_dropWhileD)
  next
    case (Cons c cs)
    then have "dropWhile isWhiteSpace s \<noteq> []" by simp
    then have "\<not> isWhiteSpace (hd (dropWhile isWhiteSpace s))"
      by (rule hd_dropWhile)
    with Cons show ?thesis by auto
  qed
  then show ?thesis by (simp add: trim_def)
qed

section \<open>Lower-casing and case-insensitive substrings\<close>







lemma filteredTasks_lowered:
  "filteredTasks toLowerCase ts term =
     filter (\<lambda>t. sublist (toLowerCase term) (toLowerCase (text t))) ts"
  by (simp add: filteredTasks_def filter_js_eq includes_js_sublist)

section \<open>Ids of a session\<close>

lemma dispatchAll_ids:
  "(\<And>now p. (now, Filter p) \<notin> set evs) \<Longrightarrow>
   map id' (dispatchAll state evs) = map id' state @ addReadings evs"
proof (induction evs arbitrary: state)
  case Nil
  show ?case by simp
next
  case (Cons ev evs)
  obtain now a where ev: "ev = (now, a)" by (cases ev)
  have rest: "\<And>now p. (now, Filter p) \<notin> set evs" using Cons.prems by auto
  have notf: "\<And>p. a \<noteq> Filter p" using Cons.prems ev by auto
  show ?case
  proof (cases a)
    case (Add s)
    with ev Cons.IH[OF rest] show ?thesis by simp
  next
    case (Toggle i)
    with ev Cons.IH[OF rest] show ?thesis by (simp add: map_js_eq)
  next
    case (Filter p)
    with notf [of p] show ?thesis by simp
  next
    case Other
    with ev Cons.IH[OF rest] show ?thesis by simp
  qed
qed

lemma session_ids_distinct_iff:
  "(\<And>now p. (now, Filter p) \<notin> set evs) \<Longrightarrow>
   distinct (map id' (session evs)) \<longleftrightarrow> distinct (addReadings evs)"
  by (simp add: session_def dispatchAll_ids)

section \<open>Properties of the reducer, the handler and the views\<close>

text \<open>
  C1. For every store and every string \<open>s\<close> that is not empty after trimming,
  reducing the \<^verbatim>\<open>"add"\<close> action with text \<open>s\<close> gives a store one element longer, whose
  last element has text \<open>s\<close> and is not completed, and whose other elements are the
  input store in its order. The add-task handler dispatches exactly this action when
  \<open>s\<close> is the entered text.
\<close>

theorem add_appends:
  assumes "trim s \<noteq> []"
  shows "length (taskReducer now state (Add s)) = length state + 1 \<and>
         text (last (taskReducer now state (Add s))) = s \<and>
         completed (last (taskReducer now state (Add s))) = False \<and>
         butlast (taskReducer now state (Add s)) = state \<and>
         tasks (addTask now (st\<lparr>newTask := s\<rparr>)) = taskReducer now (tasks st) (Add s)"
  using assms by (simp add: addTask_def)

theorem add_appends_witness:
  "trim (lit '' buy milk '') \<noteq> [] \<and>
   taskReducer 2000 (session [(1000, Add (lit ''eggs''))]) (Add (lit '' buy milk '')) =
     [\<lparr>id' = 1000, text = lit ''eggs'', completed = False\<rparr>,
      \<lparr>id' = 2000, text = lit '' buy milk '', completed = False\<rparr>] \<and>
   length (taskReducer 2000 (session [(1000, Add (lit ''eggs''))]) (Add (lit '' buy milk ''))) =
     length (session [(1000, Add (lit ''eggs''))]) + 1 \<and>
   text (last (taskReducer 2000 (session [(1000, Add (lit ''eggs''))])
     (Add (lit '' buy milk '')))) = lit '' buy milk '' \<and>
   completed (last (taskReducer 2000 (session [(1000, Add (lit ''eggs''))])
     (Add (lit '' buy milk '')))) = False \<and>
   butlast (taskReducer 2000 (session [(1000, Add (lit ''eggs''))])
     (Add (lit '' buy milk ''))) = session [(1000, Add (lit ''eggs''))]"
proof -
  have h: "trim (lit '' buy milk '') \<noteq> []"
    by (simp add: trim_def lit_def isWhiteSpace_def)
  show ?thesis
    using h add_appends [OF h, of 2000 "session [(1000, Add (lit ''eggs''))]"]
    by (simp add: session_def)
qed

text \<open>
  C2. When an id occurs exactly once in the store, reducing \<^verbatim>\<open>"toggle"\<close> with that id
  keeps the length, inverts \<open>completed\<close> at the one position holding the id (its id and
  text stay), and leaves the task at every other position as it was.
\<close>

theorem toggle_flips_unique:
  assumes "occurrences i state = 1"
  shows "length (taskReducer now state (Toggle i)) = length state \<and>
         (\<exists>k < length state. id' (state ! k) = i \<and>
            taskReducer now state (Toggle i) ! k =
              (state ! k)\<lparr>completed := \<not> completed (state ! k)\<rparr> \<and>
            (\<forall>j < length state. j \<noteq> k \<longrightarrow>
               taskReducer now state (Toggle i) ! j = state ! j))"
proof -
  from assms have "length (filter (\<lambda>task. id' task = i) state) = 1"
    by (simp add: occurrences_def)
  from filter_length_one[OF this] obtain k where k: "k < length state" "id' (state ! k) = i"
    "\<forall>j < length state. j \<noteq> k \<longrightarrow> id' (state ! j) \<noteq> i" by blast
  have "taskReducer now state (Toggle i) ! k =
          (state ! k)\<lparr>completed := \<not> completed (state ! k)\<rparr>"
    using k(1,2) by (simp add: toggle_nth del: taskReducer.simps)
  moreover have "\<forall>j < length state. j \<noteq> k \<longrightarrow>
      taskReducer now state (Toggle i) ! j = state ! j"
    using k(3) by (simp add: toggle_nth del: taskReducer.simps)
  ultimately show ?thesis using k(1,2) toggle_length by blast
qed

theorem toggle_flips_unique_witness:
  "occurrences 2000 (session [(1000, Add (lit ''eggs'')), (2000, Add (lit ''buy milk''))]) = 1 \<and>
   taskReducer 3000 (session [(1000, Add (lit ''eggs'')), (2000, Add (lit ''buy milk''))])
       (Toggle 2000) =
     [\<lparr>id' = 1000, text = lit ''eggs'', completed = False\<rparr>,
      \<lparr>id' = 2000, text = lit ''buy milk'', completed = True\<rparr>] \<and>
   (\<exists>k < length (session [(1000, Add (lit ''eggs'')), (2000, Add (lit ''buy milk''))]).
      id' (session [(1000, Add (lit ''eggs'')), (2000, Add (lit ''buy milk''))] ! k) = 2000 \<and>
      (\<forall>j < length (session [(1000, Add (lit ''eggs'')), (2000, Add (lit ''buy milk''))]).
         j \<noteq> k \<longrightarrow>
         taskReducer 3000 (session [(1000, Add (lit ''eggs'')), (2000, Add (lit ''buy milk''))])
           (Toggle 2000) ! j =
         session [(1000, Add (lit ''eggs'')), (2000, Add (lit ''buy milk''))] ! j))"
proof -
  have h: "occurrences 2000
      (session [(1000, Add (lit ''eggs'')), (2000, Add (lit ''buy milk''))]) = 1"
    by (simp add: occurrences_def session_def)
  have e: "taskReducer 3000
      (session [(1000, Add (lit ''eggs'')), (2000, Add (lit ''buy milk''))]) (Toggle 2000) =
     [\<lparr>id' = 1000, text = lit ''eggs'', completed = False\<rparr>,
      \<lparr>id' = 2000, text = lit ''buy milk'', completed = True\<rparr>]"
    by (simp add: session_def)
  from toggle_flips_unique [OF h, of 3000] h e show ?thesis by blast
qed




text \<open>
  C4. Ids are meant to be pairwise distinct during a session. By
  \<open>session_ids_distinct_iff\<close> they are distinct exactly when the clock readings of the
  \<^verbatim>\<open>"add"\<close> actions are; two tasks added at the same reading of \<^verbatim>\<open>Date.now()\<close>, through
  the reducer or through the add-task handler, get the same id.
\<close>

theorem same_millisecond_ids_collide:
  "session [(1000, Add (lit ''a'')), (1000, Add (lit ''b''))] =
     [\<lparr>id' = 1000, text = lit ''a'', completed = False\<rparr>,
      \<lparr>id' = 1000, text = lit ''b'', completed = False\<rparr>] \<and>
   \<not> distinct (map id' (session [(1000, Add (lit ''a'')), (1000, Add (lit ''b''))])) \<and>
   \<not> distinct (map id' (tasks
        (addTask 1000
          ((addTask 1000 \<lparr>newTask = lit ''a'', searchTerm = [], tasks = []\<rparr>)
             \<lparr>newTask := lit ''b''\<rparr>))))"
  by (simp add: session_def addTask_def trim_def lit_def isWhiteSpace_def)

text \<open>
  C5. When the entered text is blank after trimming, the add-task handler dispatches
  nothing: the component state, and with it the store and its length, stays as it was.
\<close>

theorem addTask_blank:
  assumes "trim (newTask st) = []"
  shows "addTask now st = st \<and> tasks (addTask now st) = tasks st \<and>
         length (tasks (addTask now st)) = length (tasks st)"
  using assms by (simp add: addTask_def)

theorem addTask_blank_witness:
  "trim (newTask \<lparr>newTask = lit ''   '', searchTerm = [],
                  tasks = session [(1000, Add (lit ''eggs''))]\<rparr>) = [] \<and>
   addTask 2000 \<lparr>newTask = lit ''   '', searchTerm = [],
                 tasks = session [(1000, Add (lit ''eggs''))]\<rparr> =
     \<lparr>newTask = lit ''   '', searchTerm = [], tasks = session [(1000, Add (lit ''eggs''))]\<rparr> \<and>
   trim (newTask \<lparr>newTask = [], searchTerm = [], tasks = []\<rparr>) = [] \<and>
   tasks (addTask 2000 \<lparr>newTask = [], searchTerm = [], tasks = []\<rparr>) = []"
proof -
  have h1: "trim (newTask \<lparr>newTask = lit ''   '', searchTerm = [],
                  tasks = session [(1000, Add (lit ''eggs''))]\<rparr>) = []"
    by (simp add: trim_def lit_def isWhiteSpace_def)
  have h2: "trim (newTask \<lparr>newTask = [], searchTerm = [], tasks = []\<rparr>) = []"
    by (simp add: trim_def)
  from addTask_blank [OF h1, of 2000] addTask_blank [OF h2, of 2000] h1 h2
  show ?thesis by simp
qed

text \<open>
  C6. When no task of the store has the given id, reducing \<^verbatim>\<open>"toggle"\<close> with that id
  returns a store equal to the input: same length, same tasks, same order.
\<close>

theorem toggle_unknown_id:
  assumes "\<forall>task \<in> set state. id' task \<noteq> i"
  shows "taskReducer now state (Toggle i) = state"
  using assms by (simp add: map_js_eq map_idI)

theorem toggle_unknown_id_witness:
  "1500 \<notin> set (map id' (session [(1000, Add (lit ''eggs'')), (2000, Add (lit ''buy milk''))])) \<and>
   taskReducer 3000 (session [(1000, Add (lit ''eggs'')), (2000, Add (lit ''buy milk''))])
       (Toggle 1500) =
     [\<lparr>id' = 1000, text = lit ''eggs'', completed = False\<rparr>,
      \<lparr>id' = 2000, text = lit ''buy milk'', completed = False\<rparr>]"
proof -
  have s: "session [(1000, Add (lit ''eggs'')), (2000, Add (lit ''buy milk''))] =
     [\<lparr>id' = 1000, text = lit ''eggs'', completed = False\<rparr>,
      \<lparr>id' = 2000, text = lit ''buy milk'', completed = False\<rparr>]"
    by (simp add: session_def)
  have h: "\<forall>task \<in> set (session [(1000, Add (lit ''eggs'')), (2000, Add (lit ''buy milk''))]).
      id' task \<noteq> 1500"
    by (simp add: s)
  have n: "1500 \<notin> set (map id'
      (session [(1000, Add (lit ''eggs'')), (2000, Add (lit ''buy milk''))]))"
    by (simp add: s)
  from toggle_unknown_id [OF h, of 3000] s n show ?thesis by metis
qed

text \<open>
  C7. When an id occurs exactly once in the store, reducing \<^verbatim>\<open>"toggle"\<close> with that id
  twice in succession gives every task its original \<open>completed\<close> value; the store is
  in fact the original store again.
\<close>

theorem toggle_involution:
  assumes "occurrences i state = 1"
  shows "map completed (taskReducer now2 (taskReducer now1 state (Toggle i)) (Toggle i)) =
           map completed state \<and>
         taskReducer now2 (taskReducer now1 state (Toggle i)) (Toggle i) = state"
  by (simp add: toggle_twice del: taskReducer.simps)

theorem toggle_involution_witness:
  "occurrences 2000 (session [(1000, Add (lit ''eggs'')), (2000, Add (lit ''buy milk''))]) = 1 \<and>
   map completed (taskReducer 4000
      (taskReducer 3000 (session [(1000, Add (lit ''eggs'')), (2000, Add (lit ''buy milk''))])
         (Toggle 2000)) (Toggle 2000)) = [False, False] \<and>
   map completed (taskReducer 3000
      (session [(1000, Add (lit ''eggs'')), (2000, Add (lit ''buy milk''))]) (Toggle 2000)) =
     [False, True]"
proof -
  have h: "occurrences 2000
      (session [(1000, Add (lit ''eggs'')), (2000, Add (lit ''buy milk''))]) = 1"
    by (simp add: occurrences_def session_def)
  have s: "map completed (session [(1000, Add (lit ''eggs'')), (2000, Add (lit ''buy milk''))]) =
      [False, False]"
    by (simp add: session_def)
  have e: "map completed (taskReducer 3000
      (session [(1000, Add (lit ''eggs'')), (2000, Add (lit ''buy milk''))]) (Toggle 2000)) =
     [False, True]"
    by (simp add: session_def)
  from toggle_involution [OF h, of 4000 3000] h s e show ?thesis by metis
qed

text \<open>
  C8. The completed view is exactly the part of the store with \<open>completed = true\<close>:
  each of its tasks is a completed task of the store, each completed task of the store
  is in it, and it holds each completed task as often as the store does.
\<close>

theorem completedTasks_exact:
  "(\<forall>t \<in> set (completedTasks ts). t \<in> set ts \<and> completed t = True) \<and>
   (\<forall>t \<in> set ts. completed t = True \<longrightarrow> t \<in> set (completedTasks ts)) \<and>
   (\<forall>t. count_list (completedTasks ts) t = (if completed t then count_list ts t else 0))"
proof -
  have "count_list (filter p xs) t = (if p t then count_list xs t else 0)" for p and xs :: "task list" and t
    by (induction xs) auto
  then show ?thesis by (auto simp: completedTasks_def filter_js_eq)
qed

theorem completedTasks_exact_witness:
  "completedTasks (taskReducer 3000
      (session [(1000, Add (lit ''eggs'')), (2000, Add (lit ''buy milk''))]) (Toggle 2000)) =
     [\<lparr>id' = 2000, text = lit ''buy milk'', completed = True\<rparr>] \<and>
   \<lparr>id' = 2000, text = lit ''buy milk'', completed = True\<rparr> \<in> set (taskReducer 3000
      (session [(1000, Add (lit ''eggs'')), (2000, Add (lit ''buy milk''))]) (Toggle 2000)) \<and>
   count_list (completedTasks (taskReducer 3000
        (session [(1000, Add (lit ''eggs'')), (2000, Add (lit ''buy milk''))]) (Toggle 2000)))
      \<lparr>id' = 2000, text = lit ''buy milk'', completed = True\<rparr> = 1 \<and>
   count_list (completedTasks (taskReducer 3000
        (session [(1000, Add (lit ''eggs'')), (2000, Add (lit ''buy milk''))]) (Toggle 2000)))
      \<lparr>id' = 1000, text = lit ''eggs'', completed = False\<rparr> = 0"
proof -
  have e: "completedTasks (taskReducer 3000
      (session [(1000, Add (lit ''eggs'')), (2000, Add (lit ''buy milk''))]) (Toggle 2000)) =
     [\<lparr>id' = 2000, text = lit ''buy milk'', completed = True\<rparr>]"
    by (simp add: completedTasks_def session_def)
  from completedTasks_exact [of "taskReducer 3000
      (session [(1000, Add (lit ''eggs'')), (2000, Add (lit ''buy milk''))]) (Toggle 2000)"] e
  show ?thesis by simp
qed

text \<open>
  C9. When an id occurs more than once in the store, reducing \<^verbatim>\<open>"toggle"\<close> with that
  id inverts \<open>completed\<close> at every position holding the id, not only the first, and
  leaves the other positions as they were.
\<close>

theorem toggle_flips_every_match:
  assumes "1 < occurrences i state"
  shows "length (taskReducer now state (Toggle i)) = length state \<and>
         (\<forall>k < length state. id' (state ! k) = i \<longrightarrow>
            taskReducer now state (Toggle i) ! k =
              (state ! k)\<lparr>completed := \<not> completed (state ! k)\<rparr>) \<and>
         (\<forall>k < length state. id' (state ! k) \<noteq> i \<longrightarrow>
            taskReducer now state (Toggle i) ! k = state ! k)"
  by (simp add: toggle_nth toggle_length del: taskReducer.simps)

theorem toggle_flips_every_match_witness:
  "1 < occurrences 1000
         (session [(1000, Add (lit ''a'')), (1000, Add (lit ''b'')), (2000, Add (lit ''c''))]) \<and>
   taskReducer 3000
       (session [(1000, Add (lit ''a'')), (1000, Add (lit ''b'')), (2000, Add (lit ''c''))])
       (Toggle 1000) ! 0 = \<lparr>id' = 1000, text = lit ''a'', completed = True\<rparr> \<and>
   taskReducer 3000
       (session [(1000, Add (lit ''a'')), (1000, Add (lit ''b'')), (2000, Add (lit ''c''))])
       (Toggle 1000) ! 1 = \<lparr>id' = 1000, text = lit ''b'', completed = True\<rparr> \<and>
   taskReducer 3000
       (session [(1000, Add (lit ''a'')), (1000, Add (lit ''b'')), (2000, Add (lit ''c''))])
       (Toggle 1000) ! 2 = \<lparr>id' = 2000, text = lit ''c'', completed = False\<rparr> \<and>
   length (taskReducer 3000
       (session [(1000, Add (lit ''a'')), (1000, Add (lit ''b'')), (2000, Add (lit ''c''))])
       (Toggle 1000)) = 3"
proof -
  have s: "session [(1000, Add (lit ''a'')), (1000, Add (lit ''b'')), (2000, Add (lit ''c''))] =
     [\<lparr>id' = 1000, text = lit ''a'', completed = False\<rparr>,
      \<lparr>id' = 1000, text = lit ''b'', completed = False\<rparr>,
      \<lparr>id' = 2000, text = lit ''c'', completed = False\<rparr>]"
    by (simp add: session_def)
  have h: "1 < occurrences 1000
      (session [(1000, Add (lit ''a'')), (1000, Add (lit ''b'')), (2000, Add (lit ''c''))])"
    by (simp add: s occurrences_def)
  note t = toggle_flips_every_match [OF h, of 3000, unfolded s]
  from t have l: "length (taskReducer 3000
      [\<lparr>id' = 1000, text = lit ''a'', completed = False\<rparr>,
       \<lparr>id' = 1000, text = lit ''b'', completed = False\<rparr>,
       \<lparr>id' = 2000, text = lit ''c'', completed = False\<rparr>] (Toggle 1000)) = 3"
    by (simp del: taskReducer.simps)
  from t have k0: "taskReducer 3000
      [\<lparr>id' = 1000, text = lit ''a'', completed = False\<rparr>,
       \<lparr>id' = 1000, text = lit ''b'', completed = False\<rparr>,
       \<lparr>id' = 2000, text = lit ''c'', completed = False\<rparr>] (Toggle 1000) ! 0 =
      \<lparr>id' = 1000, text = lit ''a'', completed = True\<rparr>"
    by (simp del: taskReducer.simps)
  from t have "\<forall>k < 3. id' ([\<lparr>id' = 1000, text = lit ''a'', completed = False\<rparr>,
       \<lparr>id' = 1000, text = lit ''b'', completed = False\<rparr>,
       \<lparr>id' = 2000, text = lit ''c'', completed = False\<rparr>] ! k) = 1000 \<longrightarrow>
     taskReducer 3000
      [\<lparr>id' = 1000, text = lit ''a'', completed = False\<rparr>,
       \<lparr>id' = 1000, text = lit ''b'', completed = False\<rparr>,
       \<lparr>id' = 2000, text = lit ''c'', completed = False\<rparr>] (Toggle 1000) ! k =
     ([\<lparr>id' = 1000, text = lit ''a'', completed = False\<rparr>,
       \<lparr>id' = 1000, text = lit ''b'', completed = False\<rparr>,
       \<lparr>id' = 2000, text = lit ''c'', completed = False\<rparr>] ! k)
       \<lparr>completed := \<not> completed ([\<lparr>id' = 1000, text = lit ''a'', completed = False\<rparr>,
       \<lparr>id' = 1000, text = lit ''b'', completed = False\<rparr>,
       \<lparr>id' = 2000, text = lit ''c'', completed = False\<rparr>] ! k)\<rparr>"
    by (simp del: taskReducer.simps)
  from this [rule_format, of 1] have k1: "taskReducer 3000
      [\<lparr>id' = 1000, text = lit ''a'', completed = False\<rparr>,
       \<lparr>id' = 1000, text = lit ''b'', completed = False\<rparr>,
       \<lparr>id' = 2000, text = lit ''c'', completed = False\<rparr>] (Toggle 1000) ! 1 =
      \<lparr>id' = 1000, text = lit ''b'', completed = True\<rparr>"
    by (simp del: taskReducer.simps)
  from t have "\<forall>k < 3. id' ([\<lparr>id' = 1000, text = lit ''a'', completed = False\<rparr>,
       \<lparr>id' = 1000, text = lit ''b'', completed = False\<rparr>,
       \<lparr>id' = 2000, text = lit ''c'', completed = False\<rparr>] ! k) \<noteq> 1000 \<longrightarrow>
     taskReducer 3000
      [\<lparr>id' = 1000, text = lit ''a'', completed = False\<rparr>,
       \<lparr>id' = 1000, text = lit ''b'', completed = False\<rparr>,
       \<lparr>id' = 2000, text = lit ''c'', completed = False\<rparr>] (Toggle 1000) ! k =
     [\<lparr>id' = 1000, text = lit ''a'', completed = False\<rparr>,
       \<lparr>id' = 1000, text = lit ''b'', completed = False\<rparr>,
       \<lparr>id' = 2000, text = lit ''c'', completed = False\<rparr>] ! k"
    by (simp del: taskReducer.simps)
  from this [rule_format, of 2] have k2: "taskReducer 3000
      [\<lparr>id' = 1000, text = lit ''a'', completed = False\<rparr>,
       \<lparr>id' = 1000, text = lit ''b'', completed = False\<rparr>,
       \<lparr>id' = 2000, text = lit ''c'', completed = False\<rparr>] (Toggle 1000) ! 2 =
      \<lparr>id' = 2000, text = lit ''c'', completed = False\<rparr>"
    by (simp del: taskReducer.simps)
  from h l k0 k1 k2 show ?thesis unfolding s by blast
qed

text \<open>
  C10. The filtered view and the completed view are subsequences of the store: tasks
  appear in a view in the order they have in the store.
\<close>

theorem views_preserve_order:
  "subseq (filteredTasks toLowerCase ts term) ts \<and> subseq (completedTasks ts) ts"
  by (simp add: filteredTasks_def completedTasks_def filter_js_eq)

theorem views_preserve_order_witness:
  "subseq [\<lparr>id' = 2000, text = lit ''Buy Milk'', completed = False\<rparr>]
      (session [(1000, Add (lit ''Eggs'')), (2000, Add (lit ''Buy Milk''))]) \<and>
   subseq [\<lparr>id' = 2000, text = lit ''buy milk'', completed = True\<rparr>]
      (taskReducer 3000
        (session [(1000, Add (lit ''eggs'')), (2000, Add (lit ''buy milk''))]) (Toggle 2000))"
proof -
  have e: "filteredTasks toLowerCase_latin
      (session [(1000, Add (lit ''Eggs'')), (2000, Add (lit ''Buy Milk''))]) (lit ''MILK'') =
     [\<lparr>id' = 2000, text = lit ''Buy Milk'', completed = False\<rparr>]"
    by (simp add: session_def filteredTasks_def toLowerCase_latin_def lit_def)
  have c: "completedTasks (taskReducer 3000
      (session [(1000, Add (lit ''eggs'')), (2000, Add (lit ''buy milk''))]) (Toggle 2000)) =
     [\<lparr>id' = 2000, text = lit ''buy milk'', completed = True\<rparr>]"
    by (simp add: completedTasks_def session_def)
  from views_preserve_order [of toLowerCase_latin
      "session [(1000, Add (lit ''Eggs'')), (2000, Add (lit ''Buy Milk''))]" "lit ''MILK''"]
    views_preserve_order [of toLowerCase_latin "taskReducer 3000
      (session [(1000, Add (lit ''eggs'')), (2000, Add (lit ''buy milk''))]) (Toggle 2000)" "[]"]
  show ?thesis by (simp only: e c simp_thms)
qed

end
